theory Spec2Isabelle
  imports Complex_Main "HOL-Library.Sublist"
begin

section \<open>Data model (internal/storage/log.go)\<close>

text \<open>
  A \<open>civil.Date\<close> is used by the storage code through \<open>Before\<close>, \<open>AddDays\<close> and as a
  map key only.  Wherever dates are compared or shifted they are modelled by their day
  number (an \<open>int\<close>): \<open>AddDays n\<close> is \<open>+ n\<close>, \<open>Before\<close> is \<open><\<close>, \<open>After\<close> is \<open>>\<close>.
\<close>

type_synonym date = int

text \<open>\<open>type Outcome struct { Result string; Amount float64; Comment string }\<close>.
  The amount type is left open: the storage code only assigns it.\<close>

record 'a Outcome =
  Result :: string
  Amount :: 'a
  Comment :: string

text \<open>\<open>type Entries map[DailyHabit]Outcome\<close> with \<open>DailyHabit{Day, Habit}\<close> as the key.\<close>

type_synonym ('d, 'a) Entries = "('d \<times> string) \<rightharpoonup> 'a Outcome"

text \<open>\<open>storage.Habit\<close>, with the fields the tests and \<open>FirstRecords\<close> use.\<close>

record Habit =
  Name :: string
  Heading :: string
  Frequency :: string
  Target :: int
  Interval :: int
  FirstRecord :: date

section \<open>\<open>Entries.FirstRecords\<close>\<close>

text \<open>The inner loop \<open>for _, habit := range habits\<close> at one date \<open>dt\<close>: every habit
  with an entry on \<open>dt\<close> gets \<open>FirstRecord = dt\<close>.\<close>

definition markHabit :: "(date, 'a) Entries \<Rightarrow> date \<Rightarrow> Habit \<Rightarrow> Habit" where
  "markHabit e dt habit =
     (if e (dt, Name habit) \<noteq> None then habit\<lparr>FirstRecord := dt\<rparr> else habit)"

definition markHabits :: "(date, 'a) Entries \<Rightarrow> date \<Rightarrow> Habit list \<Rightarrow> Habit list" where
  "markHabits e dt habits = map (markHabit e dt) habits"

text \<open>The outer loop \<open>for dt := to; !dt.Before(from); dt = dt.AddDays(-1)\<close>.\<close>

function FirstRecordsLoop ::
  "(date, 'a) Entries \<Rightarrow> date \<Rightarrow> date \<Rightarrow> Habit list \<Rightarrow> Habit list" where
  "FirstRecordsLoop e from dt habits =
     (if dt < from then habits
      else FirstRecordsLoop e from (dt - 1) (markHabits e dt habits))"
  by pat_completeness auto
termination
  by (relation "measure (\<lambda>(e, from, dt, habits). nat (dt - from + 1))") auto

definition FirstRecords ::
  "(date, 'a) Entries \<Rightarrow> date \<Rightarrow> date \<Rightarrow> Habit list \<Rightarrow> Habit list" where
  "FirstRecords e from to habits = FirstRecordsLoop e from to habits"

text \<open>The dates of \<open>[from, to]\<close> on which the habit named \<open>n\<close> has an entry.\<close>

definition entryDays :: "(date, 'a) Entries \<Rightarrow> date \<Rightarrow> date \<Rightarrow> string \<Rightarrow> date set" where
  "entryDays e from to n = {d. from \<le> d \<and> d \<le> to \<and> e (d, n) \<noteq> None}"

section \<open>Properties of \<open>FirstRecords\<close>\<close>

lemma markHabits_length: "length (markHabits e dt hs) = length hs"
  by (simp add: markHabits_def)

declare FirstRecordsLoop.simps [simp del]

lemma FirstRecordsLoop_stop: "dt < from \<Longrightarrow> FirstRecordsLoop e from dt hs = hs"
  by (subst FirstRecordsLoop.simps) simp

lemma FirstRecordsLoop_step:
  "\<not> dt < from \<Longrightarrow>
   FirstRecordsLoop e from dt hs = FirstRecordsLoop e from (dt - 1) (markHabits e dt hs)"
  by (subst FirstRecordsLoop.simps) simp

lemma FirstRecordsLoop_length: "length (FirstRecordsLoop e from dt hs) = length hs"
proof (induction e "from" dt hs rule: FirstRecordsLoop.induct)
  case (1 e "from" dt habits)
  show ?case
  proof (cases "dt < from")
    case True
    then show ?thesis by (simp add: FirstRecordsLoop_stop)
  next
    case False
    then show ?thesis using 1 by (simp add: FirstRecordsLoop_step markHabits_length)
  qed
qed

lemma entryDays_empty_range: "dt < from \<Longrightarrow> entryDays e from dt n = {}"
  by (auto simp: entryDays_def)

lemma entryDays_step_hit:
  "\<not> dt < from \<Longrightarrow> e (dt, n) \<noteq> None \<Longrightarrow>
   entryDays e from dt n = insert dt (entryDays e from (dt - 1) n)"
  by (auto simp: entryDays_def)

lemma entryDays_step_miss:
  "e (dt, n) = None \<Longrightarrow> entryDays e from dt n = entryDays e from (dt - 1) n"
proof -
  assume miss: "e (dt, n) = None"
  have "\<And>d. d \<le> dt \<Longrightarrow> e (d, n) \<noteq> None \<Longrightarrow> d \<le> dt - 1"
  proof -
    fix d assume "d \<le> dt" and "e (d, n) \<noteq> None"
    with miss have "d \<noteq> dt" by auto
    with \<open>d \<le> dt\<close> show "d \<le> dt - 1" by simp
  qed
  then show ?thesis unfolding entryDays_def by fastforce
qed

lemma entryDays_below: "d \<in> entryDays e from (dt - 1) n \<Longrightarrow> d \<le> dt"
  by (simp add: entryDays_def)

text \<open>The specification of the result for one habit: \<open>r\<close> is the \<open>FirstRecord\<close> after
  the loop, \<open>r0\<close> the one before.\<close>

definition earliestOr :: "date set \<Rightarrow> date \<Rightarrow> date \<Rightarrow> bool" where
  "earliestOr S r0 r = (if S = {} then r = r0 else r \<in> S \<and> (\<forall>d \<in> S. r \<le> d))"

lemma earliestOr_empty: "earliestOr {} r0 r0"
  by (simp add: earliestOr_def)

lemma earliestOr_insert_top:
  assumes "earliestOr S dt r" and "\<forall>d \<in> S. d \<le> dt"
  shows "earliestOr (insert dt S) r0 r"
proof (cases "S = {}")
  case True
  with assms show ?thesis by (simp add: earliestOr_def)
next
  case False
  with assms have "r \<in> S" and "\<forall>d \<in> S. r \<le> d" by (simp_all add: earliestOr_def)
  moreover from \<open>r \<in> S\<close> assms(2) have "r \<le> dt" by blast
  ultimately show ?thesis by (simp add: earliestOr_def)
qed

text \<open>What the loop does to one habit, stated on the element at position \<open>i\<close>.\<close>

lemma FirstRecordsLoop_nth:
  assumes "i < length hs"
  shows "Name (FirstRecordsLoop e from dt hs ! i) = Name (hs ! i)
     \<and> Target (FirstRecordsLoop e from dt hs ! i) = Target (hs ! i)
     \<and> Interval (FirstRecordsLoop e from dt hs ! i) = Interval (hs ! i)
     \<and> earliestOr (entryDays e from dt (Name (hs ! i))) (FirstRecord (hs ! i))
          (FirstRecord (FirstRecordsLoop e from dt hs ! i))"
  using assms
proof (induction e "from" dt hs rule: FirstRecordsLoop.induct)
  case (1 e "from" dt habits)
  show ?case
  proof (cases "dt < from")
    case True
    then show ?thesis
      by (simp add: FirstRecordsLoop_stop entryDays_empty_range earliestOr_empty)
  next
    case False
    define hs' where "hs' = markHabits e dt habits"
    define n where "n = Name (habits ! i)"
    define r where "r = FirstRecord (FirstRecordsLoop e from (dt - 1) hs' ! i)"
    have len: "i < length hs'" using 1(2) by (simp add: hs'_def markHabits_length)
    have nth: "hs' ! i = markHabit e dt (habits ! i)"
      using 1(2) by (simp add: hs'_def markHabits_def)
    have fields: "Name (hs' ! i) = n" "Target (hs' ! i) = Target (habits ! i)"
      "Interval (hs' ! i) = Interval (habits ! i)"
      by (simp_all add: nth markHabit_def n_def)
    have IH: "Name (FirstRecordsLoop e from (dt - 1) hs' ! i) = Name (hs' ! i)
       \<and> Target (FirstRecordsLoop e from (dt - 1) hs' ! i) = Target (hs' ! i)
       \<and> Interval (FirstRecordsLoop e from (dt - 1) hs' ! i) = Interval (hs' ! i)
       \<and> earliestOr (entryDays e from (dt - 1) (Name (hs' ! i))) (FirstRecord (hs' ! i)) r"
      unfolding r_def hs'_def using 1(1)[OF False] len[unfolded hs'_def] by blast
    then have IHe: "earliestOr (entryDays e from (dt - 1) n) (FirstRecord (hs' ! i)) r"
      by (simp add: fields)
    have goal: "earliestOr (entryDays e from dt n) (FirstRecord (habits ! i)) r"
    proof (cases "e (dt, n) = None")
      case True
      then have "FirstRecord (hs' ! i) = FirstRecord (habits ! i)"
        by (simp add: nth markHabit_def n_def)
      with IHe True show ?thesis by (simp add: entryDays_step_miss)
    next
      case hit: False
      then have "FirstRecord (hs' ! i) = dt"
        by (simp add: nth markHabit_def n_def)
      with IHe have "earliestOr (entryDays e from (dt - 1) n) dt r" by simp
      then have "earliestOr (insert dt (entryDays e from (dt - 1) n)) (FirstRecord (habits ! i)) r"
        by (rule earliestOr_insert_top) (blast dest: entryDays_below)
      then show ?thesis using hit False by (simp add: entryDays_step_hit)
    qed
    have step: "FirstRecordsLoop e from dt habits = FirstRecordsLoop e from (dt - 1) hs'"
      unfolding hs'_def using False by (rule FirstRecordsLoop_step)
    from IH goal show ?thesis
      unfolding step r_def[symmetric] n_def[symmetric] by (simp add: fields r_def)
  qed
qed

text \<open>
  C8.  After \<open>FirstRecords(from, to, habits)\<close> the list has the same habits in the same
  order, only \<open>FirstRecord\<close> may differ, and for each habit: if it has an entry dated in
  \<open>[from, to]\<close>, its \<open>FirstRecord\<close> is the earliest such date (a date on which an entry of
  that habit exists); if it has none, its \<open>FirstRecord\<close> is the value it had before.
\<close>

theorem FirstRecords_earliest_entry:
  "length (FirstRecords e from to hs) = length hs
   \<and> (\<forall>i < length hs.
        Name (FirstRecords e from to hs ! i) = Name (hs ! i)
      \<and> Target (FirstRecords e from to hs ! i) = Target (hs ! i)
      \<and> Interval (FirstRecords e from to hs ! i) = Interval (hs ! i)
      \<and> (if entryDays e from to (Name (hs ! i)) = {}
         then FirstRecord (FirstRecords e from to hs ! i) = FirstRecord (hs ! i)
         else FirstRecord (FirstRecords e from to hs ! i) \<in> entryDays e from to (Name (hs ! i))
            \<and> (\<forall>d \<in> entryDays e from to (Name (hs ! i)).
                  FirstRecord (FirstRecords e from to hs ! i) \<le> d)))"
proof (intro conjI allI impI)
  show "length (FirstRecords e from to hs) = length hs"
    by (simp add: FirstRecords_def FirstRecordsLoop_length)
next
  fix i assume i: "i < length hs"
  note r = FirstRecordsLoop_nth[OF i, of e "from" to, folded FirstRecords_def]
  from r show "Name (FirstRecords e from to hs ! i) = Name (hs ! i)" by blast
  from r show "Target (FirstRecords e from to hs ! i) = Target (hs ! i)" by blast
  from r show "Interval (FirstRecords e from to hs ! i) = Interval (hs ! i)" by blast
  from r have "earliestOr (entryDays e from to (Name (hs ! i))) (FirstRecord (hs ! i))
          (FirstRecord (FirstRecords e from to hs ! i))" by blast
  then show "if entryDays e from to (Name (hs ! i)) = {}
         then FirstRecord (FirstRecords e from to hs ! i) = FirstRecord (hs ! i)
         else FirstRecord (FirstRecords e from to hs ! i) \<in> entryDays e from to (Name (hs ! i))
            \<and> (\<forall>d \<in> entryDays e from to (Name (hs ! i)).
                  FirstRecord (FirstRecords e from to hs ! i) \<le> d)"
    unfolding earliestOr_def .
qed

text \<open>A run of C8: \<open>Walk\<close> has entries on days 3 and 5 of the range \<open>[1, 7]\<close> and ends
  with \<open>FirstRecord = 3\<close>; \<open>Read\<close> has none and keeps its value 42.\<close>

theorem FirstRecords_earliest_entry_witness:
  "FirstRecord (FirstRecords
      [(5, ''Walk'') \<mapsto> \<lparr>Result = ''y'', Amount = 0::int, Comment = ''''\<rparr>,
       (3, ''Walk'') \<mapsto> \<lparr>Result = ''n'', Amount = 0, Comment = ''''\<rparr>] 1 7
      [\<lparr>Name = ''Walk'', Heading = '''', Frequency = ''1'', Target = 1, Interval = 1,
          FirstRecord = 0\<rparr>,
       \<lparr>Name = ''Read'', Heading = '''', Frequency = ''1'', Target = 1, Interval = 1,
          FirstRecord = 42\<rparr>] ! 0) = 3
   \<and> FirstRecord (FirstRecords
      [(5, ''Walk'') \<mapsto> \<lparr>Result = ''y'', Amount = 0::int, Comment = ''''\<rparr>,
       (3, ''Walk'') \<mapsto> \<lparr>Result = ''n'', Amount = 0, Comment = ''''\<rparr>] 1 7
      [\<lparr>Name = ''Walk'', Heading = '''', Frequency = ''1'', Target = 1, Interval = 1,
          FirstRecord = 0\<rparr>,
       \<lparr>Name = ''Read'', Heading = '''', Frequency = ''1'', Target = 1, Interval = 1,
          FirstRecord = 42\<rparr>] ! 1) = 42"
proof -
  define e :: "(date, int) Entries" where
    "e = [(5, ''Walk'') \<mapsto> \<lparr>Result = ''y'', Amount = 0::int, Comment = ''''\<rparr>,
          (3, ''Walk'') \<mapsto> \<lparr>Result = ''n'', Amount = 0, Comment = ''''\<rparr>]"
  define hs where
    "hs = [\<lparr>Name = ''Walk'', Heading = '''', Frequency = ''1'', Target = 1, Interval = 1,
             FirstRecord = 0\<rparr>,
           \<lparr>Name = ''Read'', Heading = '''', Frequency = ''1'', Target = 1, Interval = 1,
             FirstRecord = 42\<rparr>]"
  have walk: "entryDays e 1 7 ''Walk'' = {3, 5}"
    by (auto simp: entryDays_def e_def split: if_splits)
  have read: "entryDays e 1 7 ''Read'' = {}"
    by (auto simp: entryDays_def e_def split: if_splits)
  have all: "\<forall>i < length hs.
      (if entryDays e 1 7 (Name (hs ! i)) = {}
       then FirstRecord (FirstRecords e 1 7 hs ! i) = FirstRecord (hs ! i)
       else FirstRecord (FirstRecords e 1 7 hs ! i) \<in> entryDays e 1 7 (Name (hs ! i))
          \<and> (\<forall>d \<in> entryDays e 1 7 (Name (hs ! i)). FirstRecord (FirstRecords e 1 7 hs ! i) \<le> d))"
    using FirstRecords_earliest_entry[of e 1 7 hs] by blast
  have "0 < length hs" "1 < length hs" by (simp_all add: hs_def)
  with all have a0: "(if entryDays e 1 7 (Name (hs ! 0)) = {}
       then FirstRecord (FirstRecords e 1 7 hs ! 0) = FirstRecord (hs ! 0)
       else FirstRecord (FirstRecords e 1 7 hs ! 0) \<in> entryDays e 1 7 (Name (hs ! 0))
          \<and> (\<forall>d \<in> entryDays e 1 7 (Name (hs ! 0)). FirstRecord (FirstRecords e 1 7 hs ! 0) \<le> d))"
    and a1: "(if entryDays e 1 7 (Name (hs ! 1)) = {}
       then FirstRecord (FirstRecords e 1 7 hs ! 1) = FirstRecord (hs ! 1)
       else FirstRecord (FirstRecords e 1 7 hs ! 1) \<in> entryDays e 1 7 (Name (hs ! 1))
          \<and> (\<forall>d \<in> entryDays e 1 7 (Name (hs ! 1)). FirstRecord (FirstRecords e 1 7 hs ! 1) \<le> d))"
    by blast+
  have n0: "Name (hs ! 0) = ''Walk''" and n1: "Name (hs ! 1) = ''Read''"
    and f1: "FirstRecord (hs ! 1) = 42"
    by (simp_all add: hs_def)
  from a0 have "FirstRecord (FirstRecords e 1 7 hs ! 0) = 3"
    unfolding n0 walk by auto
  moreover from a1 have "FirstRecord (FirstRecords e 1 7 hs ! 1) = 42"
    unfolding n1 read f1 by simp
  ultimately show ?thesis unfolding e_def hs_def by simp
qed

section \<open>Log lines: \<open>ParseHeader\<close>, \<open>parseLogLine\<close>, \<open>WriteHabitLog\<close>\<close>

text \<open>\<open>type Header map[string]int\<close> and the five column names.\<close>

type_synonym Header = "string \<rightharpoonup> int"

definition HeaderDate :: string where "HeaderDate = ''Date''"
definition HeaderAmount :: string where "HeaderAmount = ''Amount''"
definition HeaderComment :: string where "HeaderComment = ''Comment''"
definition HeaderHabit :: string where "HeaderHabit = ''Habit''"
definition HeaderStatus :: string where "HeaderStatus = ''Status''"

definition DefaultHeader :: Header where
  "DefaultHeader = [HeaderDate \<mapsto> 0, HeaderHabit \<mapsto> 1, HeaderStatus \<mapsto> 2,
                    HeaderComment \<mapsto> 3, HeaderAmount \<mapsto> 4]"

text \<open>\<open>len(header)\<close>, and \<open>header[k]\<close> used as a value: a missing key reads as 0.\<close>

definition lenHeader :: "Header \<Rightarrow> nat" where
  "lenHeader header = card (dom header)"

definition headerAt :: "Header \<Rightarrow> string \<Rightarrow> int" where
  "headerAt header k = (case header k of None \<Rightarrow> 0 | Some i \<Rightarrow> i)"

text \<open>A run-time panic of the Go code is a value.  \<open>result[i]\<close> panics when \<open>i\<close> is
  negative or not below \<open>len(result)\<close>.\<close>

datatype error = IndexOutOfRange

definition index :: "'x list \<Rightarrow> int \<Rightarrow> 'x option" where
  "index xs i = (if 0 \<le> i \<and> i < int (length xs) then Some (xs ! nat i) else None)"

text \<open>
  The functions the storage code calls in \<open>civil\<close>, \<open>strconv\<close> and \<open>strings\<close> are not part
  of the repository; they are parameters of the model.  \<open>ParseDate\<close> is \<open>None\<close> when
  \<open>civil.ParseDate\<close> returns an error; \<open>ParseFloat\<close> gives the value \<open>strconv.ParseFloat\<close>
  returns together with \<open>err == nil\<close>; \<open>zeroDate\<close> is the zero \<open>civil.Date{}\<close>.
\<close>

record ('d, 'a) golib =
  ParseDate :: "string \<Rightarrow> 'd option"
  DateString :: "'d \<Rightarrow> string"
  ParseFloat :: "string \<Rightarrow> 'a \<times> bool"
  TrimSpace :: "string \<Rightarrow> string"
  zeroDate :: 'd

text \<open>\<open>strings.Split(s, sep)\<close> for a non-empty separator: cut at the leftmost
  occurrence, continue behind it.  \<open>acc\<close> holds the current field, reversed.
  (For an empty separator Go splits after every UTF-8 sequence; the program never does
  that, and the model then returns the single field \<open>s\<close>.)\<close>

function splitAux :: "string \<Rightarrow> string \<Rightarrow> string \<Rightarrow> string list" where
  "splitAux sep acc [] = [rev acc]"
| "splitAux sep acc (c # cs) =
     (if sep \<noteq> [] \<and> prefix sep (c # cs)
      then rev acc # splitAux sep [] (drop (length sep) (c # cs))
      else splitAux sep (c # acc) cs)"
  by pat_completeness auto
termination
  by (relation "measure (\<lambda>(sep, acc, s). length s)") (auto simp: neq_Nil_conv)

definition Split :: "string \<Rightarrow> string \<Rightarrow> string list" where
  "Split s sep = splitAux sep [] s"

text \<open>\<open>strings.Join(elems, sep)\<close>.\<close>

fun Join :: "string list \<Rightarrow> string \<Rightarrow> string" where
  "Join [] sep = []"
| "Join [x] sep = x"
| "Join (x # y # ys) sep = x @ sep @ Join (y # ys) sep"

definition fieldSep :: string where "fieldSep = '' : ''"

text \<open>\<open>ParseHeader\<close>: every word of the first line must be a column name; the word at
  position \<open>i\<close> gets \<open>out[word] = i\<close> (a repeated word keeps its last position).\<close>

definition isHeaderName :: "string \<Rightarrow> bool" where
  "isHeaderName w = (w = HeaderDate \<or> w = HeaderHabit \<or> w = HeaderStatus
                     \<or> w = HeaderComment \<or> w = HeaderAmount)"

fun ParseHeaderLoop :: "string list \<Rightarrow> int \<Rightarrow> Header \<Rightarrow> Header option" where
  "ParseHeaderLoop [] i out = Some out"
| "ParseHeaderLoop (w # ws) i out =
     (if isHeaderName w then ParseHeaderLoop ws (i + 1) (out(w \<mapsto> i)) else None)"

definition ParseHeader :: "string \<Rightarrow> Header option" where
  "ParseHeader line = ParseHeaderLoop (Split line fieldSep) 0 Map.empty"

text \<open>The warnings \<open>parseLogLine\<close> prints, with the values it formats into them.\<close>

datatype warning =
    FieldCount nat nat nat
  | InvalidDate nat string
  | EmptyHabit nat
  | InvalidResult string nat
  | InvalidAmount string nat

text \<open>Each block of \<open>parseLogLine\<close> either panics, returns early after a warning, or
  goes on with a value.\<close>

datatype 'x step = Crash | Skip warning | Go 'x

definition dateStep :: "('d, 'a) golib \<Rightarrow> Header \<Rightarrow> string list \<Rightarrow> nat \<Rightarrow> 'd step" where
  "dateStep lib header result lineCount =
     (case header HeaderDate of
        None \<Rightarrow> Go (zeroDate lib)
      | Some i \<Rightarrow>
          if i < int (length result)
          then (case index result i of
                  None \<Rightarrow> Crash
                | Some f \<Rightarrow> (case ParseDate lib f of
                               None \<Rightarrow> Skip (InvalidDate lineCount f)
                             | Some cd \<Rightarrow> Go cd))
          else Go (zeroDate lib))"

definition habitStep :: "('d, 'a) golib \<Rightarrow> Header \<Rightarrow> string list \<Rightarrow> nat \<Rightarrow> unit step" where
  "habitStep lib header result lineCount =
     (case header HeaderHabit of
        None \<Rightarrow> Skip (EmptyHabit lineCount)
      | Some i \<Rightarrow>
          if i \<ge> int (length result) then Skip (EmptyHabit lineCount)
          else (case index result i of
                  None \<Rightarrow> Crash
                | Some f \<Rightarrow> if TrimSpace lib f = [] then Skip (EmptyHabit lineCount)
                            else Go ()))"

text \<open>The status block overwrites \<open>result[i]\<close> with the trimmed field.\<close>

definition statusStep ::
  "('d, 'a) golib \<Rightarrow> Header \<Rightarrow> string list \<Rightarrow> nat \<Rightarrow> string list step" where
  "statusStep lib header result lineCount =
     (case header HeaderStatus of
        None \<Rightarrow> Go result
      | Some i \<Rightarrow>
          if i < int (length result)
          then (case index result i of
                  None \<Rightarrow> Crash
                | Some f \<Rightarrow>
                    (let t = TrimSpace lib f in
                     if t \<noteq> ''y'' \<and> t \<noteq> ''n'' \<and> t \<noteq> ''s''
                     then Skip (InvalidResult t lineCount)
                     else Go (result[nat i := t])))
          else Go result)"

text \<open>The amount block never returns early: on a parse error it warns and keeps the
  value \<open>ParseFloat\<close> returned.\<close>

definition amountStep ::
  "('d, 'a::zero) golib \<Rightarrow> Header \<Rightarrow> string list \<Rightarrow> nat \<Rightarrow> ('a \<times> warning list) step" where
  "amountStep lib header result lineCount =
     (case header HeaderAmount of
        None \<Rightarrow> Go (0, [])
      | Some i \<Rightarrow>
          if i < int (length result)
          then (case index result i of
                  None \<Rightarrow> Crash
                | Some f \<Rightarrow>
                    if f \<noteq> []
                    then (case ParseFloat lib f of
                            (amount, ok) \<Rightarrow>
                              Go (amount, if ok then [] else [InvalidAmount f lineCount]))
                    else Go (0, []))
          else Go (0, []))"

definition commentStep :: "Header \<Rightarrow> string list \<Rightarrow> string step" where
  "commentStep header result =
     (case header HeaderComment of
        None \<Rightarrow> Go []
      | Some i \<Rightarrow>
          if i < int (length result)
          then (case index result i of None \<Rightarrow> Crash | Some f \<Rightarrow> Go f)
          else Go [])"

text \<open>The final assignment
  \<open>entries[DailyHabit{cd, result[header[HeaderHabit]]}] = Outcome{result[header[HeaderStatus]], ...}\<close>.\<close>

definition storeEntry ::
  "Header \<Rightarrow> string list \<Rightarrow> 'd \<Rightarrow> 'a \<Rightarrow> string \<Rightarrow> ('d, 'a) Entries
   \<Rightarrow> ('d, 'a) Entries option" where
  "storeEntry header result cd amount comment entries =
     (case index result (headerAt header HeaderHabit) of
        None \<Rightarrow> None
      | Some habit \<Rightarrow>
          (case index result (headerAt header HeaderStatus) of
             None \<Rightarrow> None
           | Some status \<Rightarrow>
               Some (entries((cd, habit) \<mapsto>
                 \<lparr>Result = status, Amount = amount, Comment = comment\<rparr>))))"

text \<open>\<open>parseLogLine\<close>: the entries after the call and the warnings printed, or the panic.\<close>

definition parseFields ::
  "('d, 'a::zero) golib \<Rightarrow> string list \<Rightarrow> nat \<Rightarrow> Header \<Rightarrow> ('d, 'a) Entries
   \<Rightarrow> warning list \<Rightarrow> error + (('d, 'a) Entries \<times> warning list)" where
  "parseFields lib result lineCount header entries ws =
     (case dateStep lib header result lineCount of
        Crash \<Rightarrow> Inl IndexOutOfRange
      | Skip w \<Rightarrow> Inr (entries, ws @ [w])
      | Go cd \<Rightarrow>
     (case habitStep lib header result lineCount of
        Crash \<Rightarrow> Inl IndexOutOfRange
      | Skip w \<Rightarrow> Inr (entries, ws @ [w])
      | Go _ \<Rightarrow>
     (case statusStep lib header result lineCount of
        Crash \<Rightarrow> Inl IndexOutOfRange
      | Skip w \<Rightarrow> Inr (entries, ws @ [w])
      | Go result' \<Rightarrow>
     (case amountStep lib header result' lineCount of
        Crash \<Rightarrow> Inl IndexOutOfRange
      | Skip w \<Rightarrow> Inr (entries, ws @ [w])
      | Go (amount, aw) \<Rightarrow>
     (case commentStep header result' of
        Crash \<Rightarrow> Inl IndexOutOfRange
      | Skip w \<Rightarrow> Inr (entries, ws @ [w])
      | Go comment \<Rightarrow>
     (case storeEntry header result' cd amount comment entries of
        None \<Rightarrow> Inl IndexOutOfRange
      | Some entries' \<Rightarrow> Inr (entries', ws @ aw)))))))"

definition parseLogLine ::
  "('d, 'a::zero) golib \<Rightarrow> string \<Rightarrow> nat \<Rightarrow> Header \<Rightarrow> ('d, 'a) Entries
   \<Rightarrow> error + (('d, 'a) Entries \<times> warning list)" where
  "parseLogLine lib line lineCount header entries =
     (if length line > 0
      then (if hd line \<noteq> CHR ''#''
            then (let result = Split line fieldSep in
                  parseFields lib result lineCount header entries
                    (if length result \<noteq> lenHeader header
                     then [FieldCount (lenHeader header) (length result) lineCount]
                     else []))
            else Inr (entries, []))
      else Inr (entries, []))"

text \<open>The loop \<open>for scanner.Scan() { lineCount++; parseLogLine(...) }\<close> of \<open>LoadLog\<close> over
  the lines that follow; \<open>lineCount\<close> is the count before the first of them.  The
  warnings of all lines are collected in order; a panic ends the run.\<close>

fun parseLines ::
  "('d, 'a::zero) golib \<Rightarrow> string list \<Rightarrow> nat \<Rightarrow> Header \<Rightarrow> ('d, 'a) Entries
   \<Rightarrow> error + (('d, 'a) Entries \<times> warning list)" where
  "parseLines lib [] lineCount header entries = Inr (entries, [])"
| "parseLines lib (line # rest) lineCount header entries =
     (case parseLogLine lib line (lineCount + 1) header entries of
        Inl err \<Rightarrow> Inl err
      | Inr (entries', ws) \<Rightarrow>
          (case parseLines lib rest (lineCount + 1) header entries' of
             Inl err \<Rightarrow> Inl err
           | Inr (entries'', ws') \<Rightarrow> Inr (entries'', ws @ ws')))"

text \<open>\<open>WriteHabitLog\<close>, the line it appends (without the final newline):
  \<open>fields := make([]string, len(header))\<close>, then \<open>fields[i] = field\<close> for every column
  of the header, then \<open>strings.Join(fields, " : ")\<close>.  \<open>fields[i] = ...\<close> panics when
  \<open>i\<close> is out of range.  Go visits the keys of a map in no fixed order; the model visits
  the five column names in the order of the \<open>switch\<close>, which gives the same fields
  whenever no two columns share a position.  Keys other than the five names (which
  \<open>ParseHeader\<close> never produces) would write an empty field and are not visited.\<close>

definition setField :: "Header \<Rightarrow> string \<Rightarrow> string \<Rightarrow> string list \<Rightarrow> string list option" where
  "setField header k field fs =
     (case header k of
        None \<Rightarrow> Some fs
      | Some i \<Rightarrow> if 0 \<le> i \<and> i < int (length fs)
                  then Some (fs[nat i := field]) else None)"

text \<open>The \<open>switch header\<close> of the loop body: the text written into column \<open>k\<close>.\<close>

definition entryField ::
  "('d, 'a) golib \<Rightarrow> 'd \<Rightarrow> string \<Rightarrow> string \<Rightarrow> string \<Rightarrow> string \<Rightarrow> string
   \<Rightarrow> string" where
  "entryField lib d habit result comment amount k =
     (if k = HeaderAmount then amount
      else if k = HeaderComment then comment
      else if k = HeaderDate then DateString lib d
      else if k = HeaderHabit then habit
      else if k = HeaderStatus then result
      else [])"

definition logFields ::
  "('d, 'a) golib \<Rightarrow> 'd \<Rightarrow> string \<Rightarrow> string \<Rightarrow> string \<Rightarrow> string \<Rightarrow> Header
   \<Rightarrow> string list option" where
  "logFields lib d habit result comment amount header =
     (let field = entryField lib d habit result comment amount in
      Option.bind (setField header HeaderAmount (field HeaderAmount)
                     (replicate (lenHeader header) []))
        (\<lambda>f1. Option.bind (setField header HeaderComment (field HeaderComment) f1)
        (\<lambda>f2. Option.bind (setField header HeaderDate (field HeaderDate) f2)
        (\<lambda>f3. Option.bind (setField header HeaderHabit (field HeaderHabit) f3)
        (\<lambda>f4. setField header HeaderStatus (field HeaderStatus) f4)))))"

definition logEntry ::
  "('d, 'a) golib \<Rightarrow> 'd \<Rightarrow> string \<Rightarrow> string \<Rightarrow> string \<Rightarrow> string \<Rightarrow> Header
   \<Rightarrow> error + string" where
  "logEntry lib d habit result comment amount header =
     (case logFields lib d habit result comment amount header of
        None \<Rightarrow> Inl IndexOutOfRange
      | Some fs \<Rightarrow> Inr (Join fs fieldSep))"

section \<open>An instance of the library functions, for running the model on examples\<close>

text \<open>
  A \<open>civil.Date\<close> as the triple (Year, Month, Day).  \<open>civilParseDate\<close> accepts exactly
  \<open>YYYY-MM-DD\<close> with a month in 1..12 and a day of that month, as \<open>civil.ParseDate\<close>
  does; \<open>civilString\<close> is \<open>fmt.Sprintf("%04d-%02d-%02d", ...)\<close>.  \<open>parseDecimal\<close> reads the
  plain decimal numerals \<open>[+-]digits[.digits]\<close> as exact rationals and reports an error
  (value 0) on anything else; \<open>strconv.ParseFloat\<close> accepts further forms (exponents,
  \<open>inf\<close>, hexadecimal), which the examples do not use.  \<open>trimSpaceAscii\<close> removes the
  ASCII white space bytes at both ends, which is what \<open>strings.TrimSpace\<close> does on
  ASCII strings.
\<close>

type_synonym civilDate = "int \<times> int \<times> int"

definition digitVal :: "char \<Rightarrow> nat option" where
  "digitVal c = (let n = (of_char c :: nat) in if 48 \<le> n \<and> n \<le> 57 then Some (n - 48) else None)"

fun digitsVal :: "string \<Rightarrow> nat \<Rightarrow> nat option" where
  "digitsVal [] acc = Some acc"
| "digitsVal (c # cs) acc =
     (case digitVal c of None \<Rightarrow> None | Some v \<Rightarrow> digitsVal cs (10 * acc + v))"

definition isLeap :: "nat \<Rightarrow> bool" where
  "isLeap y = (y mod 4 = 0 \<and> (y mod 100 \<noteq> 0 \<or> y mod 400 = 0))"

definition daysIn :: "nat \<Rightarrow> nat \<Rightarrow> nat" where
  "daysIn y m = (if m = 2 then (if isLeap y then 29 else 28)
                 else if m = 4 \<or> m = 6 \<or> m = 9 \<or> m = 11 then 30 else 31)"

definition civilParseDate :: "string \<Rightarrow> civilDate option" where
  "civilParseDate s =
     (if length s = 10 \<and> s ! 4 = CHR ''-'' \<and> s ! 7 = CHR ''-''
      then (case digitsVal (take 4 s) 0 of
              None \<Rightarrow> None
            | Some y \<Rightarrow>
          (case digitsVal (take 2 (drop 5 s)) 0 of
              None \<Rightarrow> None
            | Some m \<Rightarrow>
          (case digitsVal (drop 8 s) 0 of
              None \<Rightarrow> None
            | Some d \<Rightarrow>
                if 1 \<le> m \<and> m \<le> 12 \<and> 1 \<le> d \<and> d \<le> daysIn y m
                then Some (int y, int m, int d) else None)))
      else None)"

definition digitChar :: "nat \<Rightarrow> char" where
  "digitChar n = char_of (48 + n mod 10)"

fun natDigits :: "nat \<Rightarrow> nat \<Rightarrow> string" where
  "natDigits 0 n = []"
| "natDigits (Suc w) n = natDigits w (n div 10) @ [digitChar n]"

fun natWidth :: "nat \<Rightarrow> nat \<Rightarrow> nat" where
  "natWidth 0 n = 1"
| "natWidth (Suc fuel) n = (if n < 10 then 1 else 1 + natWidth fuel (n div 10))"

definition padInt :: "nat \<Rightarrow> int \<Rightarrow> string" where
  "padInt w i =
     (let n = nat \<bar>i\<bar>; k = natWidth n n in
      if i < 0 then CHR ''-'' # natDigits (max k (w - 1)) n else natDigits (max k w) n)"

definition civilString :: "civilDate \<Rightarrow> string" where
  "civilString d = (case d of (y, m, dd) \<Rightarrow>
     padInt 4 y @ ''-'' @ padInt 2 m @ ''-'' @ padInt 2 dd)"

definition isAsciiSpace :: "char \<Rightarrow> bool" where
  "isAsciiSpace c = (let n = (of_char c :: nat) in n = 32 \<or> (9 \<le> n \<and> n \<le> 13))"

definition trimSpaceAscii :: "string \<Rightarrow> string" where
  "trimSpaceAscii s = rev (dropWhile isAsciiSpace (rev (dropWhile isAsciiSpace s)))"

definition parseDecimal :: "string \<Rightarrow> rat \<times> bool" where
  "parseDecimal s =
     (let neg = (s \<noteq> [] \<and> hd s = CHR ''-'');
          body = (if s \<noteq> [] \<and> (hd s = CHR ''-'' \<or> hd s = CHR ''+'') then tl s else s);
          ip = takeWhile (\<lambda>c. c \<noteq> CHR ''.'') body;
          rest = dropWhile (\<lambda>c. c \<noteq> CHR ''.'') body;
          fp = (if rest = [] then [] else tl rest)
      in if ip = [] \<and> fp = [] then (0, False)
         else (case digitsVal (ip @ fp) 0 of
                 None \<Rightarrow> (0, False)
               | Some v \<Rightarrow>
                   (let q = Fract (int v) (10 ^ length fp)
                    in (if neg then - q else q, True))))"

definition exampleLib :: "(civilDate, rat) golib" where
  "exampleLib = \<lparr>ParseDate = civilParseDate, DateString = civilString,
                  ParseFloat = parseDecimal, TrimSpace = trimSpaceAscii,
                  zeroDate = (0, 0, 0)\<rparr>"

section \<open>Malformed records in \<open>parseLogLine\<close>\<close>

text \<open>The three ways in which \<open>parseLogLine\<close> rejects a record, on the fields \<open>fs\<close> of
  the line: a date column whose field \<open>civil.ParseDate\<close> rejects; a habit column that
  is missing from the header, lies beyond the fields, or is blank after trimming; a
  status column whose trimmed field is none of \<open>y\<close>, \<open>n\<close>, \<open>s\<close>.\<close>

definition badDate :: "('d, 'a) golib \<Rightarrow> Header \<Rightarrow> string list \<Rightarrow> bool" where
  "badDate lib header fs =
     (\<exists>i. header HeaderDate = Some i \<and> i < int (length fs)
          \<and> ParseDate lib (fs ! nat i) = None)"

definition badHabit :: "('d, 'a) golib \<Rightarrow> Header \<Rightarrow> string list \<Rightarrow> bool" where
  "badHabit lib header fs =
     (case header HeaderHabit of
        None \<Rightarrow> True
      | Some i \<Rightarrow> i \<ge> int (length fs) \<or> TrimSpace lib (fs ! nat i) = [])"

definition badStatus :: "('d, 'a) golib \<Rightarrow> Header \<Rightarrow> string list \<Rightarrow> bool" where
  "badStatus lib header fs =
     (\<exists>i. header HeaderStatus = Some i \<and> i < int (length fs)
          \<and> TrimSpace lib (fs ! nat i) \<noteq> ''y'' \<and> TrimSpace lib (fs ! nat i) \<noteq> ''n''
          \<and> TrimSpace lib (fs ! nat i) \<noteq> ''s'')"

definition nonNegative :: "Header \<Rightarrow> bool" where
  "nonNegative header = (\<forall>k i. header k = Some i \<longrightarrow> 0 \<le> i)"

lemma index_in_range: "0 \<le> i \<Longrightarrow> i < int (length xs) \<Longrightarrow> index xs i = Some (xs ! nat i)"
  by (simp add: index_def)

lemma dateStep_bad:
  assumes "nonNegative header" "badDate lib header fs"
  shows "\<exists>w. dateStep lib header fs lc = Skip w"
proof -
  from assms(2) obtain i where i: "header HeaderDate = Some i" "i < int (length fs)"
    "ParseDate lib (fs ! nat i) = None" by (auto simp: badDate_def)
  from assms(1) i(1) have "0 \<le> i" by (auto simp: nonNegative_def)
  with i show ?thesis by (simp add: dateStep_def index_in_range)
qed

lemma dateStep_not_crash:
  assumes "nonNegative header"
  shows "dateStep lib header fs lc \<noteq> Crash"
proof (cases "header HeaderDate")
  case None
  then show ?thesis by (simp add: dateStep_def)
next
  case (Some i)
  with assms have "0 \<le> i" by (auto simp: nonNegative_def)
  with Some show ?thesis
    by (simp add: dateStep_def index_def split: option.splits)
qed

lemma habitStep_bad:
  assumes "nonNegative header" "badHabit lib header fs"
  shows "habitStep lib header fs lc = Skip (EmptyHabit lc)"
proof (cases "header HeaderHabit")
  case None
  then show ?thesis by (simp add: habitStep_def)
next
  case (Some i)
  with assms(1) have "0 \<le> i" by (auto simp: nonNegative_def)
  with Some assms(2) show ?thesis
    by (auto simp: habitStep_def badHabit_def index_def)
qed

lemma habitStep_good:
  assumes "nonNegative header" "\<not> badHabit lib header fs"
  shows "habitStep lib header fs lc = Go ()"
proof (cases "header HeaderHabit")
  case None
  with assms(2) show ?thesis by (simp add: badHabit_def)
next
  case (Some i)
  with assms(1) have "0 \<le> i" by (auto simp: nonNegative_def)
  with Some assms(2) show ?thesis
    by (auto simp: habitStep_def badHabit_def index_def)
qed

lemma statusStep_bad:
  assumes "nonNegative header" "badStatus lib header fs"
  shows "\<exists>w. statusStep lib header fs lc = Skip w"
proof -
  from assms(2) obtain i where i: "header HeaderStatus = Some i" "i < int (length fs)"
    "TrimSpace lib (fs ! nat i) \<noteq> ''y''" "TrimSpace lib (fs ! nat i) \<noteq> ''n''"
    "TrimSpace lib (fs ! nat i) \<noteq> ''s''" by (auto simp: badStatus_def)
  from assms(1) i(1) have "0 \<le> i" by (auto simp: nonNegative_def)
  with i show ?thesis by (simp add: statusStep_def index_in_range Let_def)
qed

lemma parseFields_skips:
  assumes nn: "nonNegative header"
    and bad: "badDate lib header fs \<or> badHabit lib header fs \<or> badStatus lib header fs"
  shows "\<exists>w. parseFields lib fs lc header entries ws = Inr (entries, ws @ [w])"
proof (cases "badDate lib header fs")
  case True
  from dateStep_bad[OF nn True] obtain w where "dateStep lib header fs lc = Skip w" by blast
  then show ?thesis by (simp add: parseFields_def)
next
  case nd: False
  obtain cd where cd: "dateStep lib header fs lc = Go cd"
  proof (cases "dateStep lib header fs lc")
    case Crash
    with dateStep_not_crash[OF nn] show ?thesis by blast
  next
    case (Skip w)
    then have "badDate lib header fs"
      by (auto simp: dateStep_def badDate_def index_def split: option.splits if_splits)
    with nd show ?thesis by simp
  next
    case (Go x)
    then show ?thesis using that by blast
  qed
  show ?thesis
  proof (cases "badHabit lib header fs")
    case True
    from habitStep_bad[OF nn True] cd show ?thesis by (simp add: parseFields_def)
  next
    case False
    with nd bad have bs: "badStatus lib header fs" by blast
    from statusStep_bad[OF nn bs] obtain w where "statusStep lib header fs lc = Skip w" by blast
    with cd habitStep_good[OF nn False] show ?thesis by (simp add: parseFields_def)
  qed
qed


definition statusInRange :: "Header \<Rightarrow> string list \<Rightarrow> bool" where
  "statusInRange header fs = (\<forall>i. header HeaderStatus = Some i \<longrightarrow> i < int (length fs))"

definition trimmedFields :: "('d, 'a) golib \<Rightarrow> Header \<Rightarrow> string list \<Rightarrow> string list" where
  "trimmedFields lib header fs =
     (case header HeaderStatus of
        None \<Rightarrow> fs
      | Some i \<Rightarrow> if i < int (length fs) then fs[nat i := TrimSpace lib (fs ! nat i)] else fs)"

definition lineDate :: "('d, 'a) golib \<Rightarrow> Header \<Rightarrow> string list \<Rightarrow> 'd" where
  "lineDate lib header fs =
     (case header HeaderDate of
        None \<Rightarrow> zeroDate lib
      | Some i \<Rightarrow> if i < int (length fs)
                  then (case ParseDate lib (fs ! nat i) of None \<Rightarrow> zeroDate lib | Some cd \<Rightarrow> cd)
                  else zeroDate lib)"

definition columnText :: "Header \<Rightarrow> string \<Rightarrow> string list \<Rightarrow> string" where
  "columnText header k fs =
     (case header k of
        None \<Rightarrow> []
      | Some i \<Rightarrow> if i < int (length fs) then fs ! nat i else [])"

definition lineAmount :: "('d, 'a::zero) golib \<Rightarrow> string \<Rightarrow> 'a" where
  "lineAmount lib f = (if f \<noteq> [] then fst (ParseFloat lib f) else 0)"

definition amountWarning :: "('d, 'a) golib \<Rightarrow> string \<Rightarrow> nat \<Rightarrow> warning list" where
  "amountWarning lib f lc =
     (if f \<noteq> [] \<and> \<not> snd (ParseFloat lib f) then [InvalidAmount f lc] else [])"

definition lineOutcome :: "('d, 'a::zero) golib \<Rightarrow> Header \<Rightarrow> string list \<Rightarrow> 'a Outcome" where
  "lineOutcome lib header fs =
     \<lparr>Result = trimmedFields lib header fs ! nat (headerAt header HeaderStatus),
      Amount = lineAmount lib (columnText header HeaderAmount (trimmedFields lib header fs)),
      Comment = columnText header HeaderComment (trimmedFields lib header fs)\<rparr>"

lemma trimmedFields_length: "length (trimmedFields lib header fs) = length fs"
  by (simp add: trimmedFields_def split: option.splits)

lemma dateStep_good:
  assumes "nonNegative header" "\<not> badDate lib header fs"
  shows "dateStep lib header fs lc = Go (lineDate lib header fs)"
proof (cases "header HeaderDate")
  case None
  then show ?thesis by (simp add: dateStep_def lineDate_def)
next
  case (Some i)
  with assms(1) have "0 \<le> i" by (auto simp: nonNegative_def)
  with Some assms(2) show ?thesis
    by (auto simp: dateStep_def lineDate_def badDate_def index_def split: option.splits)
qed

lemma statusStep_good:
  assumes "nonNegative header" "\<not> badStatus lib header fs"
  shows "statusStep lib header fs lc = Go (trimmedFields lib header fs)"
proof (cases "header HeaderStatus")
  case None
  then show ?thesis by (simp add: statusStep_def trimmedFields_def)
next
  case (Some i)
  with assms(1) have "0 \<le> i" by (auto simp: nonNegative_def)
  with Some assms(2) show ?thesis
    by (auto simp: statusStep_def trimmedFields_def badStatus_def index_def Let_def)
qed

lemma amountStep_value:
  assumes "nonNegative header"
  shows "amountStep lib header fs lc =
     Go (lineAmount lib (columnText header HeaderAmount fs),
         amountWarning lib (columnText header HeaderAmount fs) lc)"
proof (cases "header HeaderAmount")
  case None
  then show ?thesis
    by (simp add: amountStep_def columnText_def lineAmount_def amountWarning_def)
next
  case (Some i)
  with assms(1) have "0 \<le> i" by (auto simp: nonNegative_def)
  with Some show ?thesis
    by (auto simp: amountStep_def columnText_def lineAmount_def amountWarning_def index_def
             split: prod.splits)
qed

lemma commentStep_value:
  assumes "nonNegative header"
  shows "commentStep header fs = Go (columnText header HeaderComment fs)"
proof (cases "header HeaderComment")
  case None
  then show ?thesis by (simp add: commentStep_def columnText_def)
next
  case (Some i)
  with assms(1) have "0 \<le> i" by (auto simp: nonNegative_def)
  with Some show ?thesis by (auto simp: commentStep_def columnText_def index_def)
qed

lemma headerAt_range:
  assumes "nonNegative header"
  shows "0 \<le> headerAt header k"
  using assms by (auto simp: headerAt_def nonNegative_def split: option.splits)

lemma parseFields_adds:
  assumes nn: "nonNegative header" and ne: "fs \<noteq> []"
    and good: "\<not> badDate lib header fs" "\<not> badHabit lib header fs" "\<not> badStatus lib header fs"
    and sr: "statusInRange header fs"
  shows "parseFields lib fs lc header entries ws =
     Inr (entries((lineDate lib header fs,
                   trimmedFields lib header fs ! nat (headerAt header HeaderHabit))
            \<mapsto> lineOutcome lib header fs),
          ws @ amountWarning lib (columnText header HeaderAmount (trimmedFields lib header fs)) lc)"
proof -
  let ?fs' = "trimmedFields lib header fs"
  have len: "length ?fs' = length fs" by (rule trimmedFields_length)
  from good(2) obtain ph where ph: "header HeaderHabit = Some ph" "ph < int (length fs)"
    by (auto simp: badHabit_def split: option.splits)
  have h_in: "index ?fs' (headerAt header HeaderHabit) = Some (?fs' ! nat (headerAt header HeaderHabit))"
    using ph headerAt_range[OF nn, of HeaderHabit]
    by (simp add: index_def len headerAt_def)
  have s_lt: "headerAt header HeaderStatus < int (length fs)"
  proof (cases "header HeaderStatus")
    case None
    with ne show ?thesis by (simp add: headerAt_def)
  next
    case (Some i)
    with sr show ?thesis by (simp add: headerAt_def statusInRange_def)
  qed
  have s_in: "index ?fs' (headerAt header HeaderStatus) = Some (?fs' ! nat (headerAt header HeaderStatus))"
    using s_lt headerAt_range[OF nn, of HeaderStatus] by (simp add: index_def len)
  have store: "storeEntry header ?fs' cd a c entries =
      Some (entries((cd, ?fs' ! nat (headerAt header HeaderHabit))
        \<mapsto> \<lparr>Result = ?fs' ! nat (headerAt header HeaderStatus), Amount = a, Comment = c\<rparr>))"
    for cd a c
    by (simp add: storeEntry_def h_in s_in)
  show ?thesis
    by (simp add: parseFields_def dateStep_good[OF nn good(1)] habitStep_good[OF nn good(2)]
        statusStep_good[OF nn good(3)] amountStep_value[OF nn] commentStep_value[OF nn]
        store lineOutcome_def)
qed

lemma splitAux_nonempty: "splitAux sep acc s \<noteq> []"
  by (induction sep acc s rule: splitAux.induct) auto

lemma Split_nonempty: "Split s sep \<noteq> []"
  by (simp add: Split_def splitAux_nonempty)

lemmas headerNames = HeaderDate_def HeaderAmount_def HeaderComment_def HeaderHabit_def HeaderStatus_def

lemma lenHeader_DefaultHeader: "lenHeader DefaultHeader = 5"
  by (simp add: lenHeader_def DefaultHeader_def headerNames)

lemma nonNegative_DefaultHeader: "nonNegative DefaultHeader"
  by (simp add: nonNegative_def DefaultHeader_def headerNames)

text \<open>
  C9, as the code has it.  For a line that is neither empty nor a comment, under a
  header without negative positions: a record with an unparseable date, a missing or
  blank habit name, or a status that (trimmed) is not one of \<open>y\<close>, \<open>n\<close>, \<open>s\<close> yields at
  least one warning and no change of the entries, and \<open>LoadLog\<close>'s loop goes on with
  the following lines.  A record without these defects, whose status column lies within
  its fields, is added even when its field count differs from the header's or its
  amount does not parse: each of the two yields its warning, and the amount stored is
  the value \<open>ParseFloat\<close> returned.
\<close>

theorem parseLogLine_malformed_record:
  assumes "line \<noteq> []" and "hd line \<noteq> CHR ''#''" and "nonNegative header"
  shows "(badDate lib header (Split line fieldSep) \<or> badHabit lib header (Split line fieldSep)
            \<or> badStatus lib header (Split line fieldSep)
          \<longrightarrow> (\<exists>ws. ws \<noteq> []
                \<and> parseLogLine lib line (lc + 1) header entries = Inr (entries, ws)
                \<and> parseLines lib (line # rest) lc header entries =
                    (case parseLines lib rest (lc + 1) header entries of
                       Inl err \<Rightarrow> Inl err
                     | Inr (es, ws') \<Rightarrow> Inr (es, ws @ ws'))))
       \<and> (\<not> badDate lib header (Split line fieldSep) \<and> \<not> badHabit lib header (Split line fieldSep)
            \<and> \<not> badStatus lib header (Split line fieldSep)
            \<and> statusInRange header (Split line fieldSep)
          \<longrightarrow> (\<exists>ws. parseLogLine lib line (lc + 1) header entries =
                     Inr (entries((lineDate lib header (Split line fieldSep),
                             trimmedFields lib header (Split line fieldSep)
                               ! nat (headerAt header HeaderHabit))
                           \<mapsto> lineOutcome lib header (Split line fieldSep)), ws)
                \<and> (length (Split line fieldSep) \<noteq> lenHeader header
                     \<longrightarrow> FieldCount (lenHeader header) (length (Split line fieldSep)) (lc + 1)
                          \<in> set ws)
                \<and> (\<forall>f. f = columnText header HeaderAmount
                             (trimmedFields lib header (Split line fieldSep))
                        \<and> f \<noteq> [] \<and> \<not> snd (ParseFloat lib f)
                     \<longrightarrow> InvalidAmount f (lc + 1) \<in> set ws
                         \<and> Amount (lineOutcome lib header (Split line fieldSep))
                             = fst (ParseFloat lib f))))"
proof (intro conjI impI)
  define fs where "fs = Split line fieldSep"
  define ws0 where "ws0 = (if length fs \<noteq> lenHeader header
      then [FieldCount (lenHeader header) (length fs) (lc + 1)] else [])"
  have unfold: "parseLogLine lib line (lc + 1) header entries
      = parseFields lib fs (lc + 1) header entries ws0"
    using assms(1,2) by (simp add: parseLogLine_def fs_def ws0_def Let_def)
  {
    assume "badDate lib header (Split line fieldSep) \<or> badHabit lib header (Split line fieldSep)
            \<or> badStatus lib header (Split line fieldSep)"
    then have "badDate lib header fs \<or> badHabit lib header fs \<or> badStatus lib header fs"
      by (simp add: fs_def)
    from parseFields_skips[OF assms(3) this, of "lc + 1" entries ws0]
    obtain w where w: "parseFields lib fs (lc + 1) header entries ws0 = Inr (entries, ws0 @ [w])"
      by blast
    have "ws0 @ [w] \<noteq> []" by simp
    moreover have "parseLogLine lib line (lc + 1) header entries = Inr (entries, ws0 @ [w])"
      using unfold w by simp
    moreover from this have "parseLines lib (line # rest) lc header entries =
        (case parseLines lib rest (lc + 1) header entries of
           Inl err \<Rightarrow> Inl err
         | Inr (es, ws') \<Rightarrow> Inr (es, (ws0 @ [w]) @ ws'))"
      by simp
    ultimately show "\<exists>ws. ws \<noteq> []
          \<and> parseLogLine lib line (lc + 1) header entries = Inr (entries, ws)
          \<and> parseLines lib (line # rest) lc header entries =
              (case parseLines lib rest (lc + 1) header entries of
                 Inl err \<Rightarrow> Inl err
               | Inr (es, ws') \<Rightarrow> Inr (es, ws @ ws'))"
      by blast
  }
  {
    assume "\<not> badDate lib header (Split line fieldSep) \<and> \<not> badHabit lib header (Split line fieldSep)
            \<and> \<not> badStatus lib header (Split line fieldSep)
            \<and> statusInRange header (Split line fieldSep)"
    then have good: "\<not> badDate lib header fs" "\<not> badHabit lib header fs"
      "\<not> badStatus lib header fs" "statusInRange header fs"
      by (simp_all add: fs_def)
    have ne: "fs \<noteq> []" by (simp add: fs_def Split_nonempty)
    define aw where "aw = amountWarning lib (columnText header HeaderAmount
        (trimmedFields lib header fs)) (lc + 1)"
    have res: "parseLogLine lib line (lc + 1) header entries =
        Inr (entries((lineDate lib header fs,
               trimmedFields lib header fs ! nat (headerAt header HeaderHabit))
             \<mapsto> lineOutcome lib header fs), ws0 @ aw)"
      unfolding unfold aw_def
      by (rule parseFields_adds[OF assms(3) ne good])
    have fc: "length fs \<noteq> lenHeader header
        \<longrightarrow> FieldCount (lenHeader header) (length fs) (lc + 1) \<in> set (ws0 @ aw)"
      by (simp add: ws0_def)
    have am: "\<forall>f. f = columnText header HeaderAmount (trimmedFields lib header fs)
                  \<and> f \<noteq> [] \<and> \<not> snd (ParseFloat lib f)
          \<longrightarrow> InvalidAmount f (lc + 1) \<in> set (ws0 @ aw)
              \<and> Amount (lineOutcome lib header fs) = fst (ParseFloat lib f)"
      by (simp add: aw_def amountWarning_def lineOutcome_def lineAmount_def)
    from res fc am
    show "\<exists>ws. parseLogLine lib line (lc + 1) header entries =
                     Inr (entries((lineDate lib header (Split line fieldSep),
                             trimmedFields lib header (Split line fieldSep)
                               ! nat (headerAt header HeaderHabit))
                           \<mapsto> lineOutcome lib header (Split line fieldSep)), ws)
                \<and> (length (Split line fieldSep) \<noteq> lenHeader header
                     \<longrightarrow> FieldCount (lenHeader header) (length (Split line fieldSep)) (lc + 1)
                          \<in> set ws)
                \<and> (\<forall>f. f = columnText header HeaderAmount
                             (trimmedFields lib header (Split line fieldSep))
                        \<and> f \<noteq> [] \<and> \<not> snd (ParseFloat lib f)
                     \<longrightarrow> InvalidAmount f (lc + 1) \<in> set ws
                         \<and> Amount (lineOutcome lib header (Split line fieldSep))
                             = fst (ParseFloat lib f))"
      unfolding fs_def[symmetric] by blast
  }
qed

lemma split_bad_date:
  "Split ''2025-13-01 : Walk : y : c : 1'' fieldSep = [''2025-13-01'', ''Walk'', ''y'', ''c'', ''1'']"
  by code_simp

lemma badDate_example:
  "badDate exampleLib DefaultHeader [''2025-13-01'', ''Walk'', ''y'', ''c'', ''1'']"
proof -
  have "civilParseDate ''2025-13-01'' = None" by code_simp
  then show ?thesis
    by (simp add: badDate_def DefaultHeader_def headerNames exampleLib_def)
qed

text \<open>A run of C9: month 13 is no date; the record is dropped with a warning.\<close>

theorem parseLogLine_malformed_record_witness:
  "\<exists>ws. ws \<noteq> [] \<and> parseLogLine exampleLib ''2025-13-01 : Walk : y : c : 1'' 1 DefaultHeader
        (Map.empty :: (civilDate, rat) Entries) = Inr (Map.empty, ws)"
proof -
  have "badDate exampleLib DefaultHeader (Split ''2025-13-01 : Walk : y : c : 1'' fieldSep)"
    unfolding split_bad_date by (rule badDate_example)
  with parseLogLine_malformed_record[of "''2025-13-01 : Walk : y : c : 1''" DefaultHeader
      exampleLib 0 Map.empty "[]", OF _ _ nonNegative_DefaultHeader]
  show ?thesis by auto
qed

lemma amount_example: "parseDecimal ''abc'' = (0, False)" by code_simp
lemma amount_example1: "parseDecimal ''1'' = (1, True)" by code_simp
lemma date_example: "civilParseDate ''2025-01-01'' = Some (2025, 1, 1)" by code_simp
lemma trim_examples: "trimSpaceAscii ''Walk'' = ''Walk''" "trimSpaceAscii ''y'' = ''y''"
  by code_simp+
lemma split_examples:
  "Split ''2025-01-01 : Walk : y : c : abc'' fieldSep = [''2025-01-01'', ''Walk'', ''y'', ''c'', ''abc'']"
  "Split ''2025-01-01 : Walk : y : c : 1 : extra'' fieldSep
     = [''2025-01-01'', ''Walk'', ''y'', ''c'', ''1'', ''extra'']"
  "Split ''2025-01-01 : Walk'' fieldSep = [''2025-01-01'', ''Walk'']"
  by code_simp+

lemmas stepDefs = parseFields_def dateStep_def habitStep_def statusStep_def amountStep_def
  commentStep_def storeEntry_def index_def headerAt_def

text \<open>C9 as stated fails: a record with the unparseable amount \<open>abc\<close>, and a record with
  six fields under the five-column header, are both added to the entries.\<close>

theorem parseLogLine_keeps_bad_amount_and_count:
  "parseLogLine exampleLib ''2025-01-01 : Walk : y : c : abc'' 1 DefaultHeader Map.empty
     = Inr ([((2025, 1, 1), ''Walk'') \<mapsto> \<lparr>Result = ''y'', Amount = 0, Comment = ''c''\<rparr>],
            [InvalidAmount ''abc'' 1])
   \<and> parseLogLine exampleLib ''2025-01-01 : Walk : y : c : 1 : extra'' 1 DefaultHeader Map.empty
     = Inr ([((2025, 1, 1), ''Walk'') \<mapsto> \<lparr>Result = ''y'', Amount = 1, Comment = ''c''\<rparr>],
            [FieldCount 5 6 1])"
  unfolding parseLogLine_def split_examples lenHeader_DefaultHeader
  by (simp add: stepDefs DefaultHeader_def headerNames exampleLib_def amount_example
      amount_example1 date_example trim_examples)

text \<open>A line that ends before the status column passes every guarded block and then
  panics in the final assignment, at \<open>result[header[HeaderStatus]]\<close>.\<close>

lemma parseLogLine_short_line_panics:
  "parseLogLine exampleLib ''2025-01-01 : Walk'' 1 DefaultHeader Map.empty = Inl IndexOutOfRange"
  unfolding parseLogLine_def split_examples lenHeader_DefaultHeader
  by (simp add: stepDefs DefaultHeader_def headerNames exampleLib_def date_example
      trim_examples)

end
